theory Spec2Isabelle
  imports Complex_Main "HOL-Library.Signed_Division"
begin

section \<open>Double-precision arithmetic as a parameter\<close>

text \<open>
  The program computes on \<^verbatim>\<open>double\<close> and \<^verbatim>\<open>std::complex<double>\<close>. The operations it
  calls on them belong to the C++ standard library and to the OpenCL device, not to
  the repository, so the embedding takes them as a parameter: a record of operations on a
  carrier type \<open>'r\<close>. Every function below is written against such a record, and what is
  proved for an arbitrary record holds for IEEE-754 doubles in particular. The host code and
  the OpenCL kernel run on different implementations, so they get a record each.

  A \<^verbatim>\<open>std::complex<double>\<close> is a pair (real part, imaginary part).
\<close>

type_synonym 'r cplx = "'r \<times> 'r"

record 'r arith =
  d_lit :: "rat \<Rightarrow> 'r"                 \<comment> \<open>a floating literal such as \<^verbatim>\<open>-2.5\<close>\<close>
  d_of_int :: "int \<Rightarrow> 'r"              \<comment> \<open>conversion \<^verbatim>\<open>int\<close> to \<^verbatim>\<open>double\<close>\<close>
  d_add :: "'r \<Rightarrow> 'r \<Rightarrow> 'r"
  d_sub :: "'r \<Rightarrow> 'r \<Rightarrow> 'r"
  d_mul :: "'r \<Rightarrow> 'r \<Rightarrow> 'r"
  d_div :: "'r \<Rightarrow> 'r \<Rightarrow> 'r"
  d_gt :: "'r \<Rightarrow> 'r \<Rightarrow> bool"             \<comment> \<open>\<^verbatim>\<open>a > b\<close>\<close>
  d_sqrt :: "'r \<Rightarrow> 'r"                  \<comment> \<open>\<^verbatim>\<open>sqrt(x)\<close>\<close>
  d_pow2 :: "'r \<Rightarrow> 'r"                  \<comment> \<open>\<^verbatim>\<open>std::pow(x, 2)\<close> on a double\<close>
  c_abs :: "'r cplx \<Rightarrow> 'r"              \<comment> \<open>\<^verbatim>\<open>std::abs(z)\<close> on a complex\<close>
  c_pow2 :: "'r cplx \<Rightarrow> 'r cplx"        \<comment> \<open>\<^verbatim>\<open>std::pow(z, 2)\<close> on a complex\<close>
  d_to_int :: "'r \<Rightarrow> int"               \<comment> \<open>\<^verbatim>\<open>static_cast<int>(x)\<close>\<close>

text \<open>\<^verbatim>\<open>operator+\<close> of \<^verbatim>\<open>std::complex\<close> adds the two components.\<close>

definition c_add :: "'r arith \<Rightarrow> 'r cplx \<Rightarrow> 'r cplx \<Rightarrow> 'r cplx" where
  "c_add A z w = (d_add A (fst z) (fst w), d_add A (snd z) (snd w))"

text \<open>
  Exact arithmetic on the reals: doubles without rounding. It is the instance at which the
  definitions are evaluated on concrete inputs.
\<close>

definition exact :: "real arith" where
  "exact = \<lparr> d_lit = of_rat, d_of_int = of_int,
             d_add = (\<lambda>a b. a + b), d_sub = (\<lambda>a b. a - b),
             d_mul = (\<lambda>a b. a * b), d_div = (\<lambda>a b. a / b),
             d_gt = (\<lambda>a b. b < a),
             d_sqrt = sqrt,
             d_pow2 = (\<lambda>x. x * x),
             c_abs = (\<lambda>z. sqrt (fst z * fst z + snd z * snd z)),
             c_pow2 = (\<lambda>z. (fst z * fst z - snd z * snd z, 2 * fst z * snd z)),
             d_to_int = (\<lambda>x. if 0 \<le> x then \<lfloor>x\<rfloor> else \<lceil>x\<rceil>) \<rparr>"

section \<open>The escape-iteration kernel\<close>

text \<open>
  \<^verbatim>\<open>calculateMandelbrot\<close>, the host kernel. The test of the loop body is
  \<^verbatim>\<open>std::pow(z.real(), 2) + std::pow(z.imag(), 2) > 4\<close>.
\<close>

definition escaped :: "'r arith \<Rightarrow> 'r cplx \<Rightarrow> bool" where
  "escaped A z = d_gt A (d_add A (d_pow2 A (fst z)) (d_pow2 A (snd z))) (d_of_int A 4)"

function mandel_loop :: "'r arith \<Rightarrow> 'r cplx \<Rightarrow> 'r cplx \<Rightarrow> int \<Rightarrow> int" where
  "mandel_loop A c zSquaredPlusC i =
     (if i < 100 then
        (let z' = c_add A (c_pow2 A zSquaredPlusC) c
         in if escaped A z' then i + 1 else mandel_loop A c z' (i + 1))
      else 0)"
  by pat_completeness auto
termination
  by (relation "measure (\<lambda>(A, c, z, i). nat (100 - i))") auto

declare mandel_loop.simps [simp del]

definition calculateMandelbrot :: "'r arith \<Rightarrow> 'r cplx \<Rightarrow> int" where
  "calculateMandelbrot A c =
     (if d_gt A (c_abs A c) (d_of_int A 2) then 1 else mandel_loop A c c 0)"

text \<open>
  The orbit of the specification: \<open>z\<^sub>0 = c\<close> and \<open>z\<^sub>n\<^sub>+\<^sub>1 = z\<^sub>n\<^sup>2 + c\<close>, with the square and the
  sum of the host code.
\<close>

primrec orbit :: "'r arith \<Rightarrow> 'r cplx \<Rightarrow> nat \<Rightarrow> 'r cplx" where
  "orbit A c 0 = c"
| "orbit A c (Suc n) = c_add A (c_pow2 A (orbit A c n)) c"

text \<open>
  \<^verbatim>\<open>calculateMandelbrotCompute\<close>, the OpenCL kernel of the \<^verbatim>\<open>Gpu\<close> branch: the square is
  written out on the two components \<^verbatim>\<open>x\<close> and \<^verbatim>\<open>y\<close>, the early exit takes a square root.
\<close>

function compute_loop :: "'r arith \<Rightarrow> 'r cplx \<Rightarrow> 'r cplx \<Rightarrow> int \<Rightarrow> int" where
  "compute_loop D c zSquaredPlusC i =
     (if i < 100 then
        (let x = fst zSquaredPlusC; y = snd zSquaredPlusC;
             newzc = (d_add D (d_sub D (d_mul D x x) (d_mul D y y)) (fst c),
                      d_add D (d_mul D (d_mul D (d_of_int D 2) x) y) (snd c))
         in if d_gt D (d_add D (d_mul D (fst newzc) (fst newzc))
                               (d_mul D (snd newzc) (snd newzc))) (d_of_int D 4)
            then i + 1 else compute_loop D c newzc (i + 1))
      else 0)"
  by pat_completeness auto
termination
  by (relation "measure (\<lambda>(D, c, z, i). nat (100 - i))") auto

declare compute_loop.simps [simp del]

definition calculateMandelbrotCompute :: "'r arith \<Rightarrow> 'r cplx \<Rightarrow> int" where
  "calculateMandelbrotCompute D c =
     (if d_gt D (d_sqrt D (d_add D (d_mul D (fst c) (fst c)) (d_mul D (snd c) (snd c))))
               (d_of_int D 2)
      then 1 else compute_loop D c c 0)"

section \<open>The widget\<close>

datatype RenderType = CpuSingleThread | CpuMultiThread | Gpu

datatype FractalView = EntireSet | LeftSpike

text \<open>A \<^verbatim>\<open>QPoint\<close> is (x, y); a \<^verbatim>\<open>QColor\<close> is (red, green, blue).\<close>

type_synonym QPoint = "int \<times> int"
type_synonym QColor = "int \<times> int \<times> int"

text \<open>The signals the widget emits and its calls of \<^verbatim>\<open>update()\<close>, in order.\<close>

datatype signal = Rendering | DoneRendering | Update

text \<open>
  The members of \<^verbatim>\<open>MandelbrotWidget\<close>. The pixmap maps a point to its colour, \<open>None\<close> where
  nothing was painted yet. \<open>emitted\<close> and \<open>std_cout\<close> are the two outputs of the widget
  that are not members: its signals, and the lines written to \<^verbatim>\<open>std::cout\<close>.
\<close>

record widget =
  m_renderType :: RenderType
  m_size :: int
  m_doneRendering :: bool
  m_pixmap :: "QPoint \<rightharpoonup> QColor"
  m_debugLabel :: string
  m_view :: FractalView
  emitted :: "signal list"
  std_cout :: "string list"

text \<open>\<^verbatim>\<open>bool rendering() const { return !m_doneRendering; }\<close>\<close>

definition rendering :: "widget \<Rightarrow> bool" where
  "rendering s = (\<not> m_doneRendering s)"

definition setView :: "FractalView \<Rightarrow> widget \<Rightarrow> widget" where
  "setView view s = s\<lparr>m_view := view\<rparr>"

subsection \<open>What the render job gets from outside\<close>

text \<open>
  \<^verbatim>\<open>boost::compute::program_build_failure\<close> with the four values the handler prints, and
  the three ways the OpenCL part of the job can end: it runs, the program fails to build
  (the exception the job catches), or another OpenCL error is thrown, which no handler of
  the job catches.
\<close>

record program_build_failure =
  build_log :: string
  what :: string
  error_code :: int
  error_string :: string

datatype device_outcome =
  Device_ok | Build_failed program_build_failure | Opencl_error int

record 'r env =
  dev_outcome :: device_outcome
  dev_name :: string              \<comment> \<open>\<^verbatim>\<open>compute::system::default_device().name()\<close>\<close>
  max_threads :: int              \<comment> \<open>\<^verbatim>\<open>QThreadPool::globalInstance()->maxThreadCount()\<close>\<close>
  elapsed_ns :: int               \<comment> \<open>\<^verbatim>\<open>timer.durationElapsed().count()\<close>\<close>
  qnumber :: "'r \<Rightarrow> string"       \<comment> \<open>\<^verbatim>\<open>QString::number(x)\<close> on a double\<close>

text \<open>An \<^verbatim>\<open>int\<close> in decimal, as \<^verbatim>\<open>QString::number\<close> and \<^verbatim>\<open>operator<<\<close> print it.\<close>

function show_nat :: "nat \<Rightarrow> string" where
  "show_nat n =
     (if n < 10 then [''0123456789'' ! n]
      else show_nat (n div 10) @ [''0123456789'' ! (n mod 10)])"
  by pat_completeness auto
termination
  by (relation "measure (\<lambda>n. n)") auto

declare show_nat.simps [simp del]

definition show_int :: "int \<Rightarrow> string" where
  "show_int i = (if i < 0 then CHR ''-'' # show_nat (nat (- i)) else show_nat (nat i))"

subsection \<open>The sample grid\<close>

text \<open>
  The point pushed for pixel (row, col), by the \<^verbatim>\<open>switch (m_view)\<close> of the inner loop:
  \<^verbatim>\<open>{-2.5 + (4.0 * row / m_size), -2.0 + (4.0 * col / m_size)}\<close> for the entire set,
  \<^verbatim>\<open>{-1.7 + (0.25 * row / m_size), -0.125 + (0.25 * col / m_size)}\<close> for the left spike.
\<close>

definition view_point :: "'r arith \<Rightarrow> FractalView \<Rightarrow> int \<Rightarrow> int \<Rightarrow> int \<Rightarrow> 'r cplx" where
  "view_point A view N row col =
     (case view of
        EntireSet \<Rightarrow>
          (d_add A (d_lit A (- 5 / 2)) (d_div A (d_mul A (d_lit A 4) (d_of_int A row)) (d_of_int A N)),
           d_add A (d_lit A (- 2)) (d_div A (d_mul A (d_lit A 4) (d_of_int A col)) (d_of_int A N)))
      | LeftSpike \<Rightarrow>
          (d_add A (d_lit A (- 17 / 10)) (d_div A (d_mul A (d_lit A (1 / 4)) (d_of_int A row)) (d_of_int A N)),
           d_add A (d_lit A (- 1 / 8)) (d_div A (d_mul A (d_lit A (1 / 4)) (d_of_int A col)) (d_of_int A N))))"

text \<open>The two nested loops; the accumulator is the pair of vectors (pixels, points).\<close>

function grid_cols ::
  "'r arith \<Rightarrow> FractalView \<Rightarrow> int \<Rightarrow> int \<Rightarrow> int \<Rightarrow> QPoint list \<times> 'r cplx list
     \<Rightarrow> QPoint list \<times> 'r cplx list" where
  "grid_cols A view N row col acc =
     (if col < N then
        grid_cols A view N row (col + 1)
          (fst acc @ [(row, col)], snd acc @ [view_point A view N row col])
      else acc)"
  by pat_completeness auto
termination
  by (relation "measure (\<lambda>(A, view, N, row, col, acc). nat (N - col))") auto

declare grid_cols.simps [simp del]

function grid_rows ::
  "'r arith \<Rightarrow> FractalView \<Rightarrow> int \<Rightarrow> int \<Rightarrow> QPoint list \<times> 'r cplx list
     \<Rightarrow> QPoint list \<times> 'r cplx list" where
  "grid_rows A view N row acc =
     (if row < N then grid_rows A view N (row + 1) (grid_cols A view N row 0 acc)
      else acc)"
  by pat_completeness auto
termination
  by (relation "measure (\<lambda>(A, view, N, row, acc). nat (N - row))") auto

declare grid_rows.simps [simp del]

definition generateGrid :: "'r arith \<Rightarrow> int \<Rightarrow> FractalView \<Rightarrow> QPoint list \<times> 'r cplx list" where
  "generateGrid A N view = grid_rows A view N 0 ([], [])"

subsection \<open>The three ways to evaluate the kernel over the grid\<close>

text \<open>
  The single-threaded loop \<^verbatim>\<open>for (int i = 0; i < points.size(); ++i) results[i] = ...\<close>.
\<close>

function seq_loop :: "'r arith \<Rightarrow> 'r cplx list \<Rightarrow> nat \<Rightarrow> int list \<Rightarrow> int list" where
  "seq_loop A points i results =
     (if i < length points then
        seq_loop A points (i + 1) (results[i := calculateMandelbrot A (points ! i)])
      else results)"
  by pat_completeness auto
termination
  by (relation "measure (\<lambda>(A, points, i, results). length points - i)") auto

declare seq_loop.simps [simp del]

text \<open>
  \<^verbatim>\<open>compute::copy(first, last, out)\<close> overwrites the front of the destination. Both vectors
  have \<^verbatim>\<open>points.size()\<close> elements where the job calls it.
\<close>

definition copy_to :: "'a list \<Rightarrow> 'a list \<Rightarrow> 'a list" where
  "copy_to src dst = src @ drop (length src) dst"

text \<open>
  Lines 306 to 356 of the job: \<^verbatim>\<open>std::vector<int> results(points.size())\<close> holds zeros, then
  one branch per render type fills it. \<open>Inr\<close> carries the results and the lines the
  \<^verbatim>\<open>catch\<close> block wrote to \<^verbatim>\<open>std::cout\<close>; \<open>Inl\<close> is an exception that leaves the job.
\<close>

definition evaluate ::
  "'r arith \<Rightarrow> 'r arith \<Rightarrow> device_outcome \<Rightarrow> RenderType \<Rightarrow> 'r cplx list
     \<Rightarrow> int + int list \<times> string list" where
  "evaluate A D dev rt points =
     (let results = replicate (length points) 0 in
      case rt of
        CpuSingleThread \<Rightarrow> Inr (seq_loop A points 0 results, [])
      | CpuMultiThread \<Rightarrow> Inr (map (calculateMandelbrot A) points, [])
      | Gpu \<Rightarrow>
          (case dev of
             Device_ok \<Rightarrow>
               Inr (copy_to (map (calculateMandelbrotCompute D) points) results, [])
           | Build_failed f \<Rightarrow>
               Inr (results, [build_log f, what f, show_int (error_code f), error_string f])
           | Opencl_error e \<Rightarrow> Inl e))"

subsection \<open>Label and colours\<close>

definition timeText :: "'r env \<Rightarrow> RenderType \<Rightarrow> string" where
  "timeText env rt =
     (case rt of
        CpuSingleThread \<Rightarrow> ''Single-threaded CPU''
      | CpuMultiThread \<Rightarrow> ''Multi-threaded CPU ('' @ show_int (max_threads env) @ '' threads)''
      | Gpu \<Rightarrow> dev_name env)"

text \<open>The text \<^verbatim>\<open>"%1\n%2x%2 px\n%3 ns\n%4 ms\n%5 s"\<close> with its five arguments.\<close>

definition labelText :: "'r arith \<Rightarrow> 'r env \<Rightarrow> RenderType \<Rightarrow> int \<Rightarrow> string" where
  "labelText A env rt N =
     timeText env rt @ [CHR 0x0A] @
     show_int N @ ''x'' @ show_int N @ '' px'' @ [CHR 0x0A] @
     show_int (elapsed_ns env) @ '' ns'' @ [CHR 0x0A] @
     qnumber env (d_div A (d_of_int A (elapsed_ns env)) (d_of_int A 1000000)) @ '' ms'' @ [CHR 0x0A] @
     qnumber env (d_div A (d_of_int A (elapsed_ns env)) (d_of_int A 1000000000)) @ '' s''"

text \<open>
  The pen of one result. \<^verbatim>\<open>255 / results[i] / 4\<close> divides integers, truncating towards
  zero; \<^verbatim>\<open>255 / results[i] / 0.8\<close> divides the integer quotient by a double.
\<close>

definition penColor :: "'r arith \<Rightarrow> RenderType \<Rightarrow> int \<Rightarrow> QColor" where
  "penColor A rt r =
     (if r = 0 then (0, 0, 0)
      else
        (let by4 = 255 sdiv r sdiv 4;
             by08 = d_to_int A (d_div A (d_of_int A (255 sdiv r)) (d_lit A (4 / 5)))
         in case rt of
              CpuSingleThread \<Rightarrow>
                (255 - min by4 255, 255 - min (by08 + 50) 255, 255 - min (by08 + 50) 255)
            | CpuMultiThread \<Rightarrow>
                (255 - min (by08 + 50) 255, 255 - min (by4 + 50) 255, 255 - min (by08 + 50) 255)
            | Gpu \<Rightarrow>
                (255 - min (by08 + 50) 255, 255 - min (by08 + 50) 255, 255 - min (by4 + 50) 255)))"

text \<open>\<^verbatim>\<open>painter.drawPoint(p)\<close> on a pixmap of N by N pixels: a point outside is clipped.\<close>

definition drawPoint :: "int \<Rightarrow> (QPoint \<rightharpoonup> QColor) \<Rightarrow> QPoint \<Rightarrow> QColor \<Rightarrow> (QPoint \<rightharpoonup> QColor)" where
  "drawPoint N pm p col =
     (if 0 \<le> fst p \<and> fst p < N \<and> 0 \<le> snd p \<and> snd p < N then pm(p \<mapsto> col) else pm)"

text \<open>
  The loop of lines 381 to 409. \<open>pixels\<close> is as long as \<open>results\<close> whenever the job runs
  it (lemma \<open>renderJob_lengths\<close>), so \<open>pixels ! i\<close> is in range.
\<close>

function paint_loop ::
  "'r arith \<Rightarrow> RenderType \<Rightarrow> int \<Rightarrow> int list \<Rightarrow> QPoint list \<Rightarrow> nat
     \<Rightarrow> (QPoint \<rightharpoonup> QColor) \<Rightarrow> (QPoint \<rightharpoonup> QColor)" where
  "paint_loop A rt N results pixels i pm =
     (if i < length results then
        paint_loop A rt N results pixels (i + 1)
          (drawPoint N pm (pixels ! i) (penColor A rt (results ! i)))
      else pm)"
  by pat_completeness auto
termination
  by (relation "measure (\<lambda>(A, rt, N, results, pixels, i, pm). length results - i)") auto

declare paint_loop.simps [simp del]

subsection \<open>The render job and \<^verbatim>\<open>rerender\<close>\<close>

text \<open>
  The states of the widget after each write of the job, once the results are there: the
  \<^verbatim>\<open>catch\<close> block's output, the label, the painted pixmap, the flag, the signals.
\<close>

definition job_states ::
  "'r arith \<Rightarrow> 'r env \<Rightarrow> QPoint list \<Rightarrow> int list \<Rightarrow> string list \<Rightarrow> widget \<Rightarrow> widget list" where
  "job_states A env pixels results out s =
     (let s1 = s\<lparr>std_cout := std_cout s @ out\<rparr>;
          s2 = s1\<lparr>m_debugLabel := labelText A env (m_renderType s) (m_size s)\<rparr>;
          s3 = s2\<lparr>m_pixmap :=
                    paint_loop A (m_renderType s) (m_size s) results pixels 0 (m_pixmap s2)\<rparr>;
          s4 = s3\<lparr>m_doneRendering := True\<rparr>;
          s5 = s4\<lparr>emitted := emitted s4 @ [DoneRendering, Update]\<rparr>
      in [s1, s2, s3, s4, s5])"

definition renderJob_trace ::
  "'r arith \<Rightarrow> 'r arith \<Rightarrow> 'r env \<Rightarrow> widget \<Rightarrow> int + widget list" where
  "renderJob_trace A D env s =
     (case generateGrid A (m_size s) (m_view s) of
        (pixels, points) \<Rightarrow>
          (case evaluate A D (dev_outcome env) (m_renderType s) points of
             Inl e \<Rightarrow> Inl e
           | Inr (results, out) \<Rightarrow> Inr (job_states A env pixels results out s)))"

text \<open>The job, run to its end: the last state, or the exception that left it.\<close>

definition renderJob :: "'r arith \<Rightarrow> 'r arith \<Rightarrow> 'r env \<Rightarrow> widget \<Rightarrow> int + widget" where
  "renderJob A D env s =
     (case renderJob_trace A D env s of Inl e \<Rightarrow> Inl e | Inr states \<Rightarrow> Inr (last states))"

text \<open>
  \<^verbatim>\<open>rerender()\<close> itself: the two writes before the job is handed to the thread pool
  (lines 278 and 279), and what the call does after that: \<^verbatim>\<open>emit rendering(renderJob)\<close>
  and \<^verbatim>\<open>update()\<close>.
\<close>

definition rerender_enter :: "widget \<Rightarrow> widget" where
  "rerender_enter s = s\<lparr>m_doneRendering := False, m_debugLabel := []\<rparr>"

definition rerender :: "widget \<Rightarrow> widget" where
  "rerender s = (rerender_enter s)\<lparr>emitted := emitted s @ [Rendering, Update]\<rparr>"

text \<open>A whole render: the call, then its job run to the end.\<close>

definition render :: "'r arith \<Rightarrow> 'r arith \<Rightarrow> 'r env \<Rightarrow> widget \<Rightarrow> int + widget" where
  "render A D env s = renderJob A D env (rerender s)"

text \<open>
  The constructor, on a screen whose available size is w by h:
  \<^verbatim>\<open>m_size = std::min(screenSize.width(), screenSize.height()) * 0.9\<close>, a fresh pixmap, and
  a first call of \<^verbatim>\<open>rerender()\<close>.
\<close>

definition MandelbrotWidget :: "'r arith \<Rightarrow> RenderType \<Rightarrow> int \<Rightarrow> int \<Rightarrow> widget" where
  "MandelbrotWidget A renderType w h =
     rerender \<lparr> m_renderType = renderType,
                m_size = d_to_int A (d_mul A (d_of_int A (min w h)) (d_lit A (9 / 10))),
                m_doneRendering = False,
                m_pixmap = Map.empty,
                m_debugLabel = [],
                m_view = EntireSet,
                emitted = [],
                std_cout = [] \<rparr>"

subsection \<open>The host library as the OpenCL source writes it\<close>


subsection \<open>The divisions of the grid loops\<close>

text \<open>
  Every pixel the loops push divides twice by \<^verbatim>\<open>m_size\<close>, converted to a double (lines 297
  and 300); these are the only divisions of the job whose divisor depends on the size.
\<close>

definition grid_divisors :: "'r arith \<Rightarrow> int \<Rightarrow> FractalView \<Rightarrow> 'r list" where
  "grid_divisors A N view =
     concat (map (\<lambda>p. [d_of_int A N, d_of_int A N]) (fst (generateGrid A N view)))"

subsection \<open>The grid loops beside calls of \<^verbatim>\<open>setView\<close>\<close>

text \<open>
  The job runs on a thread of the pool and reads \<^verbatim>\<open>m_view\<close> anew for every pixel (the
  \<^verbatim>\<open>switch\<close> of line 294). The radio buttons of the main window call \<^verbatim>\<open>setView\<close> on the
  GUI thread whether or not a job is running. In the loops below \<open>calls k\<close> is the view of
  a call of \<^verbatim>\<open>setView\<close> that arrives just before the job reads \<^verbatim>\<open>m_view\<close> for its pixel
  number \<open>k\<close> (counted from 0), and \<open>None\<close> when no call arrives then. The accumulator is
  the widget with the two vectors.
\<close>

definition pixel_step ::
  "'r arith \<Rightarrow> (nat \<Rightarrow> FractalView option) \<Rightarrow> int \<Rightarrow> int \<Rightarrow> int
     \<Rightarrow> widget \<times> QPoint list \<times> 'r cplx list \<Rightarrow> widget \<times> QPoint list \<times> 'r cplx list" where
  "pixel_step A calls N row col acc =
     (case acc of
        (s, pixels, points) \<Rightarrow>
          (let s' = (case calls (length pixels) of None \<Rightarrow> s | Some view \<Rightarrow> setView view s)
           in (s', pixels @ [(row, col)], points @ [view_point A (m_view s') N row col])))"






text \<open>No call while the job runs, and a single call that arrives just before pixel \<open>k\<close>.\<close>

definition no_calls :: "nat \<Rightarrow> FractalView option" where
  "no_calls j = None"



subsection \<open>Concrete inputs\<close>

text \<open>
  A build failure as OpenCL reports it (\<^verbatim>\<open>CL_BUILD_PROGRAM_FAILURE\<close> is -11), an
  environment and a widget, for evaluating the job on concrete values.
\<close>

definition build_failure_example :: program_build_failure where
  "build_failure_example =
     \<lparr> build_log = ''error: use of type double requires cl_khr_fp64'',
       what = ''Build Program Failure'',
       error_code = - 11,
       error_string = ''Build Program Failure'' \<rparr>"

definition env_example :: "device_outcome \<Rightarrow> real env" where
  "env_example dev =
     \<lparr> dev_outcome = dev, dev_name = ''Device'', max_threads = 8, elapsed_ns = 1500000,
       qnumber = (\<lambda>x. show_int \<lfloor>x\<rfloor>) \<rparr>"

definition widget_example :: "RenderType \<Rightarrow> int \<Rightarrow> widget" where
  "widget_example rt N =
     \<lparr> m_renderType = rt, m_size = N, m_doneRendering = True, m_pixmap = Map.empty,
       m_debugLabel = ''Single-threaded CPU'', m_view = EntireSet, emitted = [],
       std_cout = [] \<rparr>"

section \<open>Exact arithmetic, evaluated\<close>

lemma exact_sel:
  "d_lit exact = of_rat" "d_of_int exact = of_int"
  "d_add exact a b = a + b" "d_sub exact a b = a - b"
  "d_mul exact a b = a * b" "d_div exact a b = a / b"
  "d_gt exact a b = (b < a)" "d_sqrt exact = sqrt" "d_pow2 exact a = a * a"
  "c_abs exact z = sqrt (fst z * fst z + snd z * snd z)"
  "c_pow2 exact z = (fst z * fst z - snd z * snd z, 2 * fst z * snd z)"
  "d_to_int exact a = (if 0 \<le> a then \<lfloor>a\<rfloor> else \<lceil>a\<rceil>)"
  by (simp_all add: exact_def)

section \<open>The host kernel\<close>

lemma mandel_loop_range: "0 \<le> i \<Longrightarrow> 0 \<le> mandel_loop A c z i \<and> mandel_loop A c z i \<le> 100"
proof (induction A c z i rule: mandel_loop.induct)
  case (1 A c z i)
  show ?case
  proof (cases "i < 100")
    case False
    then show ?thesis by (simp add: mandel_loop.simps [of A c z i])
  next
    case True
    let ?z = "c_add A (c_pow2 A z) c"
    show ?thesis
    proof (cases "escaped A ?z")
      case True
      with \<open>i < 100\<close> "1.prems" show ?thesis
        by (simp add: mandel_loop.simps [of A c z i])
    next
      case False
      with \<open>i < 100\<close> "1.IH" [of ?z] "1.prems" show ?thesis
        by (simp add: mandel_loop.simps [of A c z i])
    qed
  qed
qed

lemma mandel_loop_find:
  "i \<le> 100 \<Longrightarrow> mandel_loop A c (orbit A c i) (int i) =
     (case find (\<lambda>j. escaped A (orbit A c (Suc j))) [i..<100] of
        Some j \<Rightarrow> int j + 1 | None \<Rightarrow> 0)"
proof (induction "100 - i" arbitrary: i)
  case 0
  then have "i = 100" by simp
  then show ?case by (simp add: mandel_loop.simps [of A c _ 100])
next
  case (Suc k)
  then have lt: "i < 100" and k: "k = 100 - Suc i" by simp_all
  have ih: "mandel_loop A c (orbit A c (Suc i)) (int (Suc i)) =
     (case find (\<lambda>j. escaped A (orbit A c (Suc j))) [Suc i..<100] of
        Some j \<Rightarrow> int j + 1 | None \<Rightarrow> 0)"
    using Suc.hyps(1) [OF k] lt by simp
  have upt: "[i..<100] = i # [Suc i..<100]"
    using lt by (simp add: upt_conv_Cons)
  show ?case
    using lt ih
    by (simp add: mandel_loop.simps [of A c "orbit A c i" "int i"] upt Let_def add.commute)
qed

lemma calculateMandelbrot_find:
  "calculateMandelbrot A c =
     (if d_gt A (c_abs A c) (d_of_int A 2) then 1
      else case find (\<lambda>j. escaped A (orbit A c (Suc j))) [0..<100] of
             Some j \<Rightarrow> int j + 1 | None \<Rightarrow> 0)"
  using mandel_loop_find [of 0 A c] by (simp add: calculateMandelbrot_def)

lemma calculateMandelbrot_range:
  "0 \<le> calculateMandelbrot A c \<and> calculateMandelbrot A c \<le> 100"
  using mandel_loop_range [of 0 A c c] by (simp add: calculateMandelbrot_def)

lemma find_first:
  "i < n \<Longrightarrow> P i \<Longrightarrow> \<forall>j<i. \<not> P j \<Longrightarrow> find P [0..<n] = Some i"
  by (auto simp: find_Some_iff)

lemma find_none: "\<forall>j<n. \<not> P j \<Longrightarrow> find P [0..<n] = None"
  by (auto simp: find_None_iff)

text \<open>
  Claim C2. The host kernel returns 1 at once when \<^verbatim>\<open>std::abs(c) > 2\<close>. Otherwise it follows
  the orbit \<open>z\<^sub>0 = c\<close>, \<open>z\<^sub>n\<^sub>+\<^sub>1 = z\<^sub>n\<^sup>2 + c\<close> for at most 100 steps and returns \<open>i + 1\<close> for
  the first step \<open>i\<close> (counted from 0) whose new value \<open>z\<^sub>i\<^sub>+\<^sub>1\<close> passes the test
  \<open>|z|\<^sup>2 > 4\<close>, and 0 when no step below 100 does. The result lies between 0 and 100.
  This holds whatever the arithmetic of the doubles is.
\<close>

theorem calculateMandelbrot_returns:
  "(d_gt A (c_abs A c) (d_of_int A 2) \<longrightarrow> calculateMandelbrot A c = 1) \<and>
   (\<not> d_gt A (c_abs A c) (d_of_int A 2) \<longrightarrow>
      (\<forall>i<100. escaped A (orbit A c (Suc i)) \<and> (\<forall>j<i. \<not> escaped A (orbit A c (Suc j)))
           \<longrightarrow> calculateMandelbrot A c = int i + 1) \<and>
      ((\<forall>i<100. \<not> escaped A (orbit A c (Suc i))) \<longrightarrow> calculateMandelbrot A c = 0)) \<and>
   0 \<le> calculateMandelbrot A c \<and> calculateMandelbrot A c \<le> 100"
proof (intro conjI impI allI)
  assume "d_gt A (c_abs A c) (d_of_int A 2)"
  then show "calculateMandelbrot A c = 1"
    by (simp add: calculateMandelbrot_def)
next
  fix i :: nat
  assume far: "\<not> d_gt A (c_abs A c) (d_of_int A 2)" and i: "i < 100"
    and first: "escaped A (orbit A c (Suc i)) \<and> (\<forall>j<i. \<not> escaped A (orbit A c (Suc j)))"
  have "find (\<lambda>j. escaped A (orbit A c (Suc j))) [0..<100] = Some i"
    using i first by (intro find_first) simp_all
  with far show "calculateMandelbrot A c = int i + 1"
    by (simp add: calculateMandelbrot_find)
next
  assume far: "\<not> d_gt A (c_abs A c) (d_of_int A 2)"
    and none: "\<forall>i<100. \<not> escaped A (orbit A c (Suc i))"
  have "find (\<lambda>j. escaped A (orbit A c (Suc j))) [0..<100] = None"
    using none by (intro find_none) simp
  with far show "calculateMandelbrot A c = 0"
    by (simp add: calculateMandelbrot_find)
qed (simp_all add: calculateMandelbrot_range)

lemma orbit_fixed: "c_add A (c_pow2 A c) c = c \<Longrightarrow> orbit A c n = c"
  by (induction n) simp_all

lemma exact_orbit_origin: "orbit exact (0, 0) n = (0, 0)"
  by (rule orbit_fixed) (simp add: c_add_def exact_sel)

lemma sqrt9: "sqrt 9 = 3"
  using real_sqrt_abs [of 3] by simp

theorem calculateMandelbrot_returns_witness:
  "calculateMandelbrot exact (3, 0) = 1 \<and>
   calculateMandelbrot exact (1, 0) = 2 \<and>
   calculateMandelbrot exact (0, 0) = 0"
proof (intro conjI)
  have "d_gt exact (c_abs exact (3, 0)) (d_of_int exact 2)"
    by (simp add: exact_sel sqrt9)
  with calculateMandelbrot_returns [of exact "(3, 0)"]
  show "calculateMandelbrot exact (3, 0) = 1" by blast
next
  have far: "\<not> d_gt exact (c_abs exact (1, 0)) (d_of_int exact 2)"
    by (simp add: exact_sel)
  have o1: "orbit exact (1, 0) (Suc 0) = (2, 0)"
    by (simp add: c_add_def exact_sel)
  have o2: "orbit exact (1, 0) (Suc (Suc 0)) = (5, 0)"
    by (simp add: c_add_def exact_sel)
  have e2: "escaped exact (orbit exact (1, 0) (Suc 1))"
    unfolding One_nat_def o2 by (simp add: escaped_def exact_sel)
  have e1: "\<forall>j<1. \<not> escaped exact (orbit exact (1, 0) (Suc j))"
    using o1 by (simp add: escaped_def exact_sel)
  note calculateMandelbrot_returns [of exact "(1, 0)", THEN conjunct2, THEN conjunct1,
      THEN mp, OF far, THEN conjunct1, rule_format, of 1]
  with e1 e2 show "calculateMandelbrot exact (1, 0) = 2" by simp
next
  have far: "\<not> d_gt exact (c_abs exact (0, 0)) (d_of_int exact 2)"
    by (simp add: exact_sel)
  have "\<forall>i<100. \<not> escaped exact (orbit exact (0, 0) (Suc i))"
    unfolding exact_orbit_origin by (simp add: escaped_def exact_sel)
  with calculateMandelbrot_returns [of exact "(0, 0)"] far
  show "calculateMandelbrot exact (0, 0) = 0" by blast
qed

text \<open>
  Claim C6. The kernel returns 0 at the origin, whose orbit never passes the escape test.
  The three hypotheses are the facts about the double 0 that the run uses: its modulus is
  not above 2, \<open>0\<^sup>2 + 0\<close> is 0 again, and \<open>|0|\<^sup>2\<close> is not above 4. All three hold
  in exact arithmetic, where the kernel is then evaluated at the origin.
\<close>

theorem calculateMandelbrot_origin:
  assumes "\<not> d_gt A (c_abs A (d_of_int A 0, d_of_int A 0)) (d_of_int A 2)"
    and "c_add A (c_pow2 A (d_of_int A 0, d_of_int A 0)) (d_of_int A 0, d_of_int A 0)
           = (d_of_int A 0, d_of_int A 0)"
    and "\<not> escaped A (d_of_int A 0, d_of_int A 0)"
  shows "(\<forall>n. \<not> escaped A (orbit A (d_of_int A 0, d_of_int A 0) n)) \<and>
         calculateMandelbrot A (d_of_int A 0, d_of_int A 0) = 0"
proof -
  let ?o = "(d_of_int A 0, d_of_int A 0)"
  have orb: "orbit A ?o n = ?o" for n
    using assms(2) by (rule orbit_fixed)
  have "find (\<lambda>j. escaped A (orbit A ?o (Suc j))) [0..<100] = None"
    unfolding orb using assms(3) by (simp add: find_None_iff)
  with assms(1) have "calculateMandelbrot A ?o = 0"
    by (simp add: calculateMandelbrot_find)
  moreover have "\<forall>n. \<not> escaped A (orbit A ?o n)"
    unfolding orb using assms(3) by simp
  ultimately show ?thesis by simp
qed

theorem calculateMandelbrot_origin_witness:
  "(\<forall>n. \<not> escaped exact (orbit exact (0, 0) n)) \<and> calculateMandelbrot exact (0, 0) = 0"
  using calculateMandelbrot_origin [of exact]
  by (simp add: exact_sel c_add_def escaped_def)

section \<open>The sample grid as a list\<close>

lemma grid_cols_eq:
  "grid_cols A view N row col acc =
     (fst acc @ map (Pair row) [col..N - 1],
      snd acc @ map (view_point A view N row) [col..N - 1])"
proof (induction A view N row col acc rule: grid_cols.induct)
  case (1 A view N row col acc)
  show ?case
  proof (cases "col < N")
    case True
    then have "[col..N - 1] = col # [col + 1..N - 1]"
      by (intro upto_rec1) simp
    with True "1.IH" show ?thesis
      by (simp add: grid_cols.simps [of A view N row col acc])
  next
    case False
    then show ?thesis
      by (simp add: grid_cols.simps [of A view N row col acc])
  qed
qed

lemma grid_rows_eq:
  "grid_rows A view N row acc =
     (fst acc @ concat (map (\<lambda>r. map (Pair r) [0..N - 1]) [row..N - 1]),
      snd acc @ concat (map (\<lambda>r. map (view_point A view N r) [0..N - 1]) [row..N - 1]))"
proof (induction A view N row acc rule: grid_rows.induct)
  case (1 A view N row acc)
  show ?case
  proof (cases "row < N")
    case True
    then have up: "[row..N - 1] = row # [row + 1..N - 1]"
      by (intro upto_rec1) simp
    have step: "grid_rows A view N row acc =
            grid_rows A view N (row + 1) (grid_cols A view N row 0 acc)"
      by (simp only: grid_rows.simps [of A view N row acc] True if_True)
    have ih: "grid_rows A view N (row + 1) (grid_cols A view N row 0 acc) =
      (fst (grid_cols A view N row 0 acc) @
         concat (map (\<lambda>r. map (Pair r) [0..N - 1]) [row + 1..N - 1]),
       snd (grid_cols A view N row 0 acc) @
         concat (map (\<lambda>r. map (view_point A view N r) [0..N - 1]) [row + 1..N - 1]))"
      by (rule "1.IH" [OF True])
    have gc: "grid_cols A view N row 0 acc =
      (fst acc @ map (Pair row) [0..N - 1], snd acc @ map (view_point A view N row) [0..N - 1])"
      by (rule grid_cols_eq)
    show ?thesis
      apply (simp only: step)
      apply (simp only: ih)
      apply (simp only: gc up)
      apply simp
      done
  next
    case False
    then have "grid_rows A view N row acc = acc"
      by (simp only: grid_rows.simps [of A view N row acc] if_False)
    with False show ?thesis by simp
  qed
qed

lemma generateGrid_eq:
  "generateGrid A N view =
     (concat (map (\<lambda>r. map (Pair r) [0..N - 1]) [0..N - 1]),
      concat (map (\<lambda>r. map (view_point A view N r) [0..N - 1]) [0..N - 1]))"
  by (simp add: generateGrid_def grid_rows_eq)

lemma upto_map_int: "0 \<le> N \<Longrightarrow> [0..N - 1] = map int [0..<nat N]"
proof (induction "nat N" arbitrary: N)
  case 0
  then show ?case by simp
next
  case (Suc n)
  then have n: "n = nat (N - 1)" and pos: "0 \<le> N - 1" by simp_all
  have split: "[0..N - 1] = [0..N - 1 - 1] @ [N - 1]"
    using pos by (rule upto_rec2)
  have ih: "[0..N - 1 - 1] = map int [0..<nat (N - 1)]"
    using Suc.hyps(1) [OF n pos] .
  have "nat N = Suc (nat (N - 1))"
    using Suc.hyps(2) n by simp
  then have "map int [0..<nat N] = map int [0..<nat (N - 1)] @ [N - 1]"
    using pos by simp
  with split ih show ?case by simp
qed

lemma concat_blocks:
  assumes "\<forall>r<n. length (g r) = m"
  shows "length (concat (map g [0..<n])) = n * m \<and>
         (\<forall>i<n * m. concat (map g [0..<n]) ! i = g (i div m) ! (i mod m))"
  using assms
proof (induction n)
  case 0
  then show ?case by simp
next
  case (Suc n)
  then have ih1: "length (concat (map g [0..<n])) = n * m"
    and ih2: "\<forall>i<n * m. concat (map g [0..<n]) ! i = g (i div m) ! (i mod m)"
    and len: "length (g n) = m"
    by simp_all
  have app: "concat (map g [0..<Suc n]) = concat (map g [0..<n]) @ g n"
    by simp
  have nth: "concat (map g [0..<Suc n]) ! i = g (i div m) ! (i mod m)" if i: "i < Suc n * m" for i
  proof (cases "i < n * m")
    case True
    then have "(concat (map g [0..<n]) @ g n) ! i = concat (map g [0..<n]) ! i"
      by (simp only: nth_append ih1 if_True)
    with ih2 True show ?thesis
      unfolding app by simp
  next
    case False
    with i have lo: "n * m \<le> i" and hi: "i < n * m + m" by simp_all
    have d: "i div m = n"
    proof (rule div_nat_eqI)
      show "m * n \<le> i" using lo by (simp only: mult.commute)
      show "i < m * Suc n" using hi by (simp only: mult_Suc_right add.commute mult.commute)
    qed
    have md: "i mod m = i - n * m"
      unfolding modulo_nat_def d ..
    have "(concat (map g [0..<n]) @ g n) ! i = g n ! (i - n * m)"
      using False by (simp only: nth_append ih1 if_False)
    then show ?thesis
      unfolding app d md .
  qed
  have "length (concat (map g [0..<Suc n])) = Suc n * m"
    unfolding app using ih1 len by simp
  moreover have "\<forall>i<Suc n * m. concat (map g [0..<Suc n]) ! i = g (i div m) ! (i mod m)"
    using nth by blast
  ultimately show ?case by (rule conjI)
qed

lemma grid_concat_nth:
  fixes f :: "int \<Rightarrow> int \<Rightarrow> 'a"
  assumes N: "0 \<le> N" and i: "i < nat N * nat N"
  shows "concat (map (\<lambda>r. map (f r) [0..N - 1]) [0..N - 1]) ! i = f (int i div N) (int i mod N)"
proof -
  let ?n = "nat N"
  let ?g = "\<lambda>r. map (\<lambda>c. f (int r) (int c)) [0..<?n]"
  have npos: "0 < ?n" using i by (cases "?n") simp_all
  have eq: "concat (map (\<lambda>r. map (f r) [0..N - 1]) [0..N - 1]) = concat (map ?g [0..<?n])"
    unfolding upto_map_int [OF N] by (simp only: map_map o_def)
  have "\<forall>r<?n. length (?g r) = ?n" by simp
  from concat_blocks [OF this] i
  have "concat (map ?g [0..<?n]) ! i = ?g (i div ?n) ! (i mod ?n)" by blast
  also have "\<dots> = f (int (i div ?n)) (int (i mod ?n))"
    using npos by simp
  also have "int (i div ?n) = int i div N"
    using N by (simp add: zdiv_int)
  also have "int (i mod ?n) = int i mod N"
    using N by (simp add: zmod_int)
  finally show ?thesis unfolding eq .
qed

lemma grid_concat_length:
  fixes f :: "int \<Rightarrow> int \<Rightarrow> 'a"
  assumes N: "0 \<le> N"
  shows "length (concat (map (\<lambda>r. map (f r) [0..N - 1]) [0..N - 1])) = nat N * nat N"
proof -
  let ?n = "nat N"
  let ?g = "\<lambda>r. map (\<lambda>c. f (int r) (int c)) [0..<?n]"
  have eq: "concat (map (\<lambda>r. map (f r) [0..N - 1]) [0..N - 1]) = concat (map ?g [0..<?n])"
    unfolding upto_map_int [OF N] by (simp only: map_map o_def)
  have "\<forall>r<?n. length (?g r) = ?n" by simp
  from concat_blocks [OF this] show ?thesis unfolding eq by blast
qed

lemma generateGrid_length:
  assumes "0 \<le> N"
  shows "length (fst (generateGrid A N view)) = nat (N * N)"
    and "length (snd (generateGrid A N view)) = nat (N * N)"
  using assms
  by (simp_all only: generateGrid_eq fst_conv snd_conv grid_concat_length nat_mult_distrib)

lemma generateGrid_nth:
  assumes "0 \<le> N" and "i < nat (N * N)"
  shows "fst (generateGrid A N view) ! i = (int i div N, int i mod N)"
    and "snd (generateGrid A N view) ! i = view_point A view N (int i div N) (int i mod N)"
proof -
  from assms have i: "i < nat N * nat N" by (simp only: nat_mult_distrib)
  show "fst (generateGrid A N view) ! i = (int i div N, int i mod N)"
    unfolding generateGrid_eq fst_conv
    by (rule grid_concat_nth [OF assms(1) i])
  show "snd (generateGrid A N view) ! i = view_point A view N (int i div N) (int i mod N)"
    unfolding generateGrid_eq snd_conv
    by (rule grid_concat_nth [OF assms(1) i])
qed

lemma row_major_index:
  assumes "0 \<le> row" "row < N" "0 \<le> col" "col < (N::int)"
  shows "nat (row * N + col) < nat (N * N)"
    and "int (nat (row * N + col)) div N = row"
    and "int (nat (row * N + col)) mod N = col"
proof -
  have nn: "0 \<le> row * N + col" using assms by simp
  have "row * N + col < row * N + N" using assms by simp
  also have "\<dots> = (row + 1) * N" by (simp add: algebra_simps)
  also have "\<dots> \<le> N * N" using assms by (intro mult_right_mono) simp_all
  finally show "nat (row * N + col) < nat (N * N)" using nn by simp
  show "int (nat (row * N + col)) div N = row"
    using nn assms by simp
  show "int (nat (row * N + col)) mod N = col"
    using nn assms by simp
qed

lemma generateGrid_one:
  "generateGrid A 1 view = ([(0, 0)], [view_point A view 1 0 0])"
  by (simp add: generateGrid_eq)

lemma generateGrid_nonpositive: "N \<le> 0 \<Longrightarrow> generateGrid A N view = ([], [])"
  by (simp add: generateGrid_eq)

lemma view_point_exact:
  "view_point exact EntireSet N row col =
     (- 5 / 2 + 4 * real_of_int row / real_of_int N, - 2 + 4 * real_of_int col / real_of_int N)"
  "view_point exact LeftSpike N row col =
     (- 17 / 10 + 1 / 4 * real_of_int row / real_of_int N,
      - 1 / 8 + 1 / 4 * real_of_int col / real_of_int N)"
  by (simp_all add: view_point_def exact_sel of_rat_divide of_rat_minus)

text \<open>
  Claim C5. For a viewport of size \<open>N \<ge> 1\<close> the grid has \<open>N\<^sup>2\<close> pixels and as many
  points, in row-major order: the pair for (row, col) stands at index \<open>row * N + col\<close>,
  and index \<open>i\<close> holds pixel \<open>(i div N, i mod N)\<close>. The point there is
  \<open>(-2.5 + 4.0 * row / N, -2.0 + 4.0 * col / N)\<close> for the entire set and
  \<open>(-1.7 + 0.25 * row / N, -0.125 + 0.25 * col / N)\<close> for the left spike, in the arithmetic
  of the doubles. In exact arithmetic the first pair of the entire set is
  \<open>((0, 0), (-2.5, -2.0))\<close>, and the second pair for \<open>N = 4\<close> is \<open>((0, 1), (-2.5, -1.0))\<close>.
\<close>

theorem generateGrid_row_major:
  assumes "1 \<le> N"
  shows
    "length (fst (generateGrid A N view)) = nat (N * N) \<and>
     length (snd (generateGrid A N view)) = nat (N * N) \<and>
     (\<forall>i<nat (N * N). fst (generateGrid A N view) ! i = (int i div N, int i mod N)) \<and>
     (\<forall>row col. 0 \<le> row \<and> row < N \<and> 0 \<le> col \<and> col < N \<longrightarrow>
        fst (generateGrid A N view) ! nat (row * N + col) = (row, col) \<and>
        snd (generateGrid A N EntireSet) ! nat (row * N + col) =
          (d_add A (d_lit A (- 5 / 2))
             (d_div A (d_mul A (d_lit A 4) (d_of_int A row)) (d_of_int A N)),
           d_add A (d_lit A (- 2))
             (d_div A (d_mul A (d_lit A 4) (d_of_int A col)) (d_of_int A N))) \<and>
        snd (generateGrid A N LeftSpike) ! nat (row * N + col) =
          (d_add A (d_lit A (- 17 / 10))
             (d_div A (d_mul A (d_lit A (1 / 4)) (d_of_int A row)) (d_of_int A N)),
           d_add A (d_lit A (- 1 / 8))
             (d_div A (d_mul A (d_lit A (1 / 4)) (d_of_int A col)) (d_of_int A N)))) \<and>
     fst (generateGrid exact N EntireSet) ! 0 = (0, 0) \<and>
     snd (generateGrid exact N EntireSet) ! 0 = (- 5 / 2, - 2) \<and>
     fst (generateGrid exact 4 EntireSet) ! 1 = (0, 1) \<and>
     snd (generateGrid exact 4 EntireSet) ! 1 = (- 5 / 2, - 1)"
proof -
  from assms have N: "0 \<le> N" by simp
  have len: "length (fst (generateGrid A N view)) = nat (N * N)"
    "length (snd (generateGrid A N view)) = nat (N * N)"
    by (rule generateGrid_length [OF N])+
  have idx: "\<forall>i<nat (N * N). fst (generateGrid A N view) ! i = (int i div N, int i mod N)"
    by (simp add: generateGrid_nth [OF N])
  have cell: "fst (generateGrid A N view) ! nat (row * N + col) = (row, col) \<and>
        snd (generateGrid A N EntireSet) ! nat (row * N + col) =
          (d_add A (d_lit A (- 5 / 2))
             (d_div A (d_mul A (d_lit A 4) (d_of_int A row)) (d_of_int A N)),
           d_add A (d_lit A (- 2))
             (d_div A (d_mul A (d_lit A 4) (d_of_int A col)) (d_of_int A N))) \<and>
        snd (generateGrid A N LeftSpike) ! nat (row * N + col) =
          (d_add A (d_lit A (- 17 / 10))
             (d_div A (d_mul A (d_lit A (1 / 4)) (d_of_int A row)) (d_of_int A N)),
           d_add A (d_lit A (- 1 / 8))
             (d_div A (d_mul A (d_lit A (1 / 4)) (d_of_int A col)) (d_of_int A N)))"
    if rc: "0 \<le> row \<and> row < N \<and> 0 \<le> col \<and> col < N" for row col
  proof -
    from rc have r: "0 \<le> row" "row < N" "0 \<le> col" "col < N" by simp_all
    note ix = row_major_index [OF r]
    show ?thesis
      unfolding generateGrid_nth [OF N ix(1)] ix(2) ix(3) view_point_def by simp
  qed
  have pos: "0 < nat (N * N)" using assms by (simp add: zero_less_mult_iff)
  have first: "fst (generateGrid exact N EntireSet) ! 0 = (0, 0)"
    "snd (generateGrid exact N EntireSet) ! 0 = (- 5 / 2, - 2)"
    by (simp_all add: generateGrid_nth [OF N pos] view_point_exact)
  have four: "(1::nat) < nat (4 * 4)" "(0::int) \<le> 4" by simp_all
  have second: "fst (generateGrid exact 4 EntireSet) ! 1 = (0, 1)"
    "snd (generateGrid exact 4 EntireSet) ! 1 = (- 5 / 2, - 1)"
    using generateGrid_nth [OF four(2) four(1), of exact EntireSet]
    by (simp_all add: view_point_exact)
  from len idx cell first second show ?thesis by blast
qed

theorem generateGrid_row_major_witness:
  "length (fst (generateGrid exact 4 LeftSpike)) = 16 \<and>
   length (snd (generateGrid exact 4 LeftSpike)) = 16 \<and>
   fst (generateGrid exact 4 LeftSpike) ! 6 = (1, 2) \<and>
   snd (generateGrid exact 4 EntireSet) ! 6 = (- 3 / 2, 0) \<and>
   snd (generateGrid exact 4 LeftSpike) ! 6 = (- 131 / 80, 0) \<and>
   snd (generateGrid exact 4 EntireSet) ! 0 = (- 5 / 2, - 2) \<and>
   snd (generateGrid exact 4 EntireSet) ! 1 = (- 5 / 2, - 1)"
proof -
  have h: "(1::int) \<le> 4" by simp
  note g = generateGrid_row_major [OF h, of exact LeftSpike]
  have cell: "fst (generateGrid exact 4 LeftSpike) ! nat (1 * 4 + 2) = (1, 2) \<and>
        snd (generateGrid exact 4 EntireSet) ! nat (1 * 4 + 2) =
          (d_add exact (d_lit exact (- 5 / 2))
             (d_div exact (d_mul exact (d_lit exact 4) (d_of_int exact 1)) (d_of_int exact 4)),
           d_add exact (d_lit exact (- 2))
             (d_div exact (d_mul exact (d_lit exact 4) (d_of_int exact 2)) (d_of_int exact 4))) \<and>
        snd (generateGrid exact 4 LeftSpike) ! nat (1 * 4 + 2) =
          (d_add exact (d_lit exact (- 17 / 10))
             (d_div exact (d_mul exact (d_lit exact (1 / 4)) (d_of_int exact 1)) (d_of_int exact 4)),
           d_add exact (d_lit exact (- 1 / 8))
             (d_div exact (d_mul exact (d_lit exact (1 / 4)) (d_of_int exact 2)) (d_of_int exact 4)))"
    using g [THEN conjunct2, THEN conjunct2, THEN conjunct2, THEN conjunct1, rule_format, of 1 2]
    by simp
  have six: "nat (1 * 4 + 2) = 6" by simp
  from cell have c: "fst (generateGrid exact 4 LeftSpike) ! 6 = (1, 2)"
    "snd (generateGrid exact 4 EntireSet) ! 6 = (- 3 / 2, 0)"
    "snd (generateGrid exact 4 LeftSpike) ! 6 = (- 131 / 80, 0)"
    unfolding six by (simp_all add: exact_sel of_rat_divide of_rat_minus)
  from g have l: "length (fst (generateGrid exact 4 LeftSpike)) = 16"
    "length (snd (generateGrid exact 4 LeftSpike)) = 16"
    by simp_all
  from g have e: "snd (generateGrid exact 4 EntireSet) ! 0 = (- 5 / 2, - 2)"
    "snd (generateGrid exact 4 EntireSet) ! 1 = (- 5 / 2, - 1)"
    by simp_all
  from c l e show ?thesis by simp
qed

section \<open>Colours\<close>

lemma sdiv_nonneg: "0 \<le> a \<Longrightarrow> 0 < b \<Longrightarrow> a sdiv b = a div (b::int)"
  by (simp add: signed_divide_int_def sgn_if)

lemma quarter_bounds: "0 \<le> q \<Longrightarrow> q \<le> 255 \<Longrightarrow> 0 \<le> q div 4 \<and> q div 4 \<le> (63::int)"
  by presburger

lemma by4_bounds:
  assumes "1 \<le> r" "r \<le> (100::int)"
  shows "0 \<le> 255 sdiv r sdiv 4 \<and> 255 sdiv r sdiv 4 \<le> 63"
proof -
  have q: "255 sdiv r = 255 div r" using assms by (simp add: sdiv_nonneg)
  have "0 \<le> 255 div r" using assms by (simp add: pos_imp_zdiv_nonneg_iff)
  moreover have "255 div r \<le> 255" using assms
    by (metis div_by_1 zdiv_mono2 zero_less_one zero_le_numeral)
  ultimately have "0 \<le> 255 div r div 4 \<and> 255 div r div 4 \<le> 63"
    by (rule quarter_bounds)
  moreover have "255 div r sdiv 4 = 255 div r div 4"
    using \<open>0 \<le> 255 div r\<close> by (simp add: sdiv_nonneg)
  ultimately show ?thesis
    unfolding q by simp
qed

text \<open>
  Claim C9. In all three colour mappings the count 0 gives black, and a count from 1 to 100
  never does: the channel that divides by 4 with integers stays bright. It is at least 192
  for the red of the single-threaded mapping (no offset) and at least 142 for the green of
  the multi-threaded mapping and the blue of the \<^verbatim>\<open>Gpu\<close> mapping (offset 50). So for a
  count between 0 and 100 the pen is black exactly when the count is 0, whatever the
  division by \<^verbatim>\<open>0.8\<close> yields.
\<close>

theorem penColor_black_iff:
  "penColor A rt 0 = (0, 0, 0) \<and>
   (1 \<le> r \<and> r \<le> 100 \<longrightarrow>
      192 \<le> fst (penColor A CpuSingleThread r) \<and>
      142 \<le> fst (snd (penColor A CpuMultiThread r)) \<and>
      142 \<le> snd (snd (penColor A Gpu r)) \<and>
      penColor A rt r \<noteq> (0, 0, 0)) \<and>
   (0 \<le> r \<and> r \<le> 100 \<longrightarrow> (penColor A rt r = (0, 0, 0)) = (r = 0))"
proof -
  have zero: "penColor A rt 0 = (0, 0, 0)"
    by (simp add: penColor_def)
  have pos: "192 \<le> fst (penColor A CpuSingleThread r) \<and>
      142 \<le> fst (snd (penColor A CpuMultiThread r)) \<and>
      142 \<le> snd (snd (penColor A Gpu r)) \<and>
      penColor A rt r \<noteq> (0, 0, 0)" if r: "1 \<le> r" "r \<le> 100"
  proof -
    from by4_bounds [OF r] have b: "0 \<le> 255 sdiv r sdiv 4" "255 sdiv r sdiv 4 \<le> 63"
      by simp_all
    from r have nz: "r \<noteq> 0" by simp
    have 1: "192 \<le> fst (penColor A CpuSingleThread r)"
      using b nz by (simp add: penColor_def Let_def)
    have 2: "142 \<le> fst (snd (penColor A CpuMultiThread r))"
      using b nz by (simp add: penColor_def Let_def)
    have 3: "142 \<le> snd (snd (penColor A Gpu r))"
      using b nz by (simp add: penColor_def Let_def)
    have "penColor A rt r \<noteq> (0, 0, 0)"
    proof (cases rt)
      case CpuSingleThread
      with 1 show ?thesis by auto
    next
      case CpuMultiThread
      with 2 show ?thesis by auto
    next
      case Gpu
      with 3 show ?thesis by auto
    qed
    with 1 2 3 show ?thesis by simp
  qed
  have iff: "(penColor A rt r = (0, 0, 0)) = (r = 0)" if "0 \<le> r" "r \<le> 100"
  proof (cases "r = 0")
    case True
    with zero show ?thesis by simp
  next
    case False
    with that pos show ?thesis by simp
  qed
  from zero pos iff show ?thesis by blast
qed

theorem penColor_black_iff_witness:
  "penColor exact CpuSingleThread 0 = (0, 0, 0) \<and>
   192 \<le> fst (penColor exact CpuSingleThread 1) \<and>
   142 \<le> fst (snd (penColor exact CpuMultiThread 1)) \<and>
   142 \<le> snd (snd (penColor exact Gpu 1)) \<and>
   penColor exact CpuSingleThread 1 \<noteq> (0, 0, 0)"
  using penColor_black_iff [of exact CpuSingleThread 1] by simp

section \<open>Evaluation over the grid\<close>

lemma seq_loop_eq:
  "length results = length points \<Longrightarrow> i \<le> length points \<Longrightarrow>
   seq_loop A points i results =
     take i results @ map (calculateMandelbrot A) (drop i points)"
proof (induction A points i results rule: seq_loop.induct)
  case (1 A points i results)
  show ?case
  proof (cases "i < length points")
    case True
    let ?v = "calculateMandelbrot A (points ! i)"
    have step: "seq_loop A points i results = seq_loop A points (i + 1) (results[i := ?v])"
      by (simp only: seq_loop.simps [of A points i results] True if_True)
    have ih: "seq_loop A points (i + 1) (results[i := ?v]) =
        take (i + 1) (results[i := ?v]) @ map (calculateMandelbrot A) (drop (i + 1) points)"
      using True "1.prems" by (intro "1.IH") simp_all
    have tk: "take (i + 1) (results[i := ?v]) = take i results @ [?v]"
      using True "1.prems" by (simp add: take_Suc_conv_app_nth)
    have dr: "drop i points = points ! i # drop (i + 1) points"
      using True by (simp add: Cons_nth_drop_Suc)
    show ?thesis
      unfolding step ih tk dr by simp
  next
    case False
    then have "seq_loop A points i results = results"
      by (simp only: seq_loop.simps [of A points i results] if_False)
    with False "1.prems" show ?thesis by simp
  qed
qed

lemma seq_loop_map:
  "seq_loop A points 0 (replicate (length points) 0) = map (calculateMandelbrot A) points"
  by (simp add: seq_loop_eq)

lemma evaluate_CpuSingleThread:
  "evaluate A D dev CpuSingleThread points = Inr (map (calculateMandelbrot A) points, [])"
  by (simp add: evaluate_def seq_loop_map)

lemma evaluate_CpuMultiThread:
  "evaluate A D dev CpuMultiThread points = Inr (map (calculateMandelbrot A) points, [])"
  by (simp add: evaluate_def)

lemma evaluate_Gpu_ok:
  "evaluate A D Device_ok Gpu points = Inr (map (calculateMandelbrotCompute D) points, [])"
  by (simp add: evaluate_def copy_to_def)

lemma evaluate_Gpu_build_failed:
  "evaluate A D (Build_failed f) Gpu points =
     Inr (replicate (length points) 0,
          [build_log f, what f, show_int (error_code f), error_string f])"
  by (simp add: evaluate_def)

lemma evaluate_Gpu_error: "evaluate A D (Opencl_error e) Gpu points = Inl e"
  by (simp add: evaluate_def)

lemma evaluate_length:
  assumes "evaluate A D dev rt points = Inr (results, out)"
  shows "length results = length points"
proof (cases rt)
  case CpuSingleThread
  with assms show ?thesis by (auto simp: evaluate_CpuSingleThread)
next
  case CpuMultiThread
  with assms show ?thesis by (auto simp: evaluate_CpuMultiThread)
next
  case Gpu
  with assms show ?thesis
    by (cases dev)
      (auto simp: evaluate_Gpu_ok evaluate_Gpu_build_failed evaluate_Gpu_error)
qed

lemma sqrt_41_4: "2 < sqrt (41 / 4)"
  by (rule real_less_rsqrt) (simp add: power2_eq_square)

lemma calculateMandelbrot_corner: "calculateMandelbrot exact (- (5 / 2), - 2) = 1"
  using sqrt_41_4 by (simp add: calculateMandelbrot_def exact_sel)



section \<open>Host kernel and device kernel in one arithmetic\<close>








section \<open>Index alignment of the strategies\<close>





section \<open>Painting\<close>

lemma paint_loop_step:
  "i < length results \<Longrightarrow>
   paint_loop A rt N results pixels i pm =
     paint_loop A rt N results pixels (i + 1)
       (drawPoint N pm (pixels ! i) (penColor A rt (results ! i)))"
  by (simp only: paint_loop.simps [of A rt N results pixels i pm] if_True)

lemma paint_loop_stop:
  "\<not> i < length results \<Longrightarrow> paint_loop A rt N results pixels i pm = pm"
  by (simp only: paint_loop.simps [of A rt N results pixels i pm] if_False)

lemma penColor_zero: "penColor A rt 0 = (0, 0, 0)"
  by (simp add: penColor_def)

lemma paint_loop_black_keep:
  "\<forall>j<length results. results ! j = 0 \<Longrightarrow> pm p = Some (0, 0, 0) \<Longrightarrow>
   paint_loop A rt N results pixels i pm p = Some (0, 0, 0)"
proof (induction A rt N results pixels i pm rule: paint_loop.induct)
  case (1 A rt N results pixels i pm)
  show ?case
  proof (cases "i < length results")
    case True
    with "1.prems" have z: "results ! i = 0" by simp
    have "drawPoint N pm (pixels ! i) (penColor A rt (results ! i)) p = Some (0, 0, 0)"
      using "1.prems"(2) by (simp add: z penColor_zero drawPoint_def)
    with True "1.prems"(1) show ?thesis
      unfolding paint_loop_step [OF True] by (intro "1.IH")
  next
    case False
    with "1.prems" show ?thesis by (simp add: paint_loop_stop)
  qed
qed

lemma paint_loop_black:
  "\<forall>j<length results. results ! j = 0 \<Longrightarrow> i \<le> j \<Longrightarrow> j < length results \<Longrightarrow>
   0 \<le> fst (pixels ! j) \<and> fst (pixels ! j) < N \<and> 0 \<le> snd (pixels ! j) \<and> snd (pixels ! j) < N \<Longrightarrow>
   paint_loop A rt N results pixels i pm (pixels ! j) = Some (0, 0, 0)"
proof (induction A rt N results pixels i pm rule: paint_loop.induct)
  case (1 A rt N results pixels i pm)
  from "1.prems" have lt: "i < length results" by simp
  let ?pm = "drawPoint N pm (pixels ! i) (penColor A rt (results ! i))"
  show ?case
  proof (cases "i = j")
    case True
    from "1.prems" have "results ! j = 0" by simp
    then have "?pm (pixels ! j) = Some (0, 0, 0)"
      using "1.prems"(4) True by (simp add: penColor_zero drawPoint_def)
    then show ?thesis
      unfolding paint_loop_step [OF lt]
      using "1.prems"(1) by (intro paint_loop_black_keep)
  next
    case False
    with "1.prems" have "i + 1 \<le> j" by simp
    with lt "1.prems" show ?thesis
      unfolding paint_loop_step [OF lt] by (intro "1.IH")
  qed
qed

text \<open>Results and pixels have the same length when the job paints.\<close>

lemma renderJob_lengths:
  assumes "generateGrid A N view = (pixels, points)"
    and "evaluate A D dev rt points = Inr (results, out)"
  shows "length results = length pixels"
proof (cases "0 \<le> N")
  case True
  from generateGrid_length [OF True, of A view] assms(1)
  have "length pixels = length points" by simp
  with evaluate_length [OF assms(2)] show ?thesis by simp
next
  case False
  then have "[0..N - 1] = []" by simp
  with assms(1) have "pixels = []" "points = []"
    by (simp_all add: generateGrid_eq)
  with evaluate_length [OF assms(2)] show ?thesis by simp
qed

lemma paint_all_black:
  assumes grid: "generateGrid A N view = (pixels, points)"
    and len: "length results = length points"
    and zero: "\<forall>j<length results. results ! j = 0"
    and xy: "0 \<le> x" "x < N" "0 \<le> y" "y < N"
  shows "paint_loop A rt N results pixels 0 pm (x, y) = Some (0, 0, 0)"
proof -
  from xy have N: "0 \<le> N" by simp
  note ix = row_major_index [OF xy]
  from generateGrid_nth(1) [OF N ix(1), of A view] grid
  have px: "pixels ! nat (x * N + y) = (x, y)"
    unfolding ix(2) ix(3) by simp
  from generateGrid_length(2) [OF N, of A view] grid len
  have lt: "nat (x * N + y) < length results"
    using ix(1) by simp
  have "paint_loop A rt N results pixels 0 pm (pixels ! nat (x * N + y)) = Some (0, 0, 0)"
    using zero lt xy by (intro paint_loop_black) (simp_all add: px)
  then show ?thesis unfolding px .
qed

section \<open>The render job\<close>

lemma renderJob_trace_eq:
  assumes "generateGrid A (m_size s) (m_view s) = (pixels, points)"
    and "evaluate A D (dev_outcome env) (m_renderType s) points = Inr (results, out)"
  shows "renderJob_trace A D env s = Inr (job_states A env pixels results out s)"
  by (simp add: renderJob_trace_def assms)

lemma job_states_nth:
  "job_states A env pixels results out s ! 0 = s\<lparr>std_cout := std_cout s @ out\<rparr>"
  "job_states A env pixels results out s ! Suc 0 =
     s\<lparr>std_cout := std_cout s @ out,
       m_debugLabel := labelText A env (m_renderType s) (m_size s)\<rparr>"
  "job_states A env pixels results out s ! 2 =
     s\<lparr>std_cout := std_cout s @ out,
       m_debugLabel := labelText A env (m_renderType s) (m_size s),
       m_pixmap := paint_loop A (m_renderType s) (m_size s) results pixels 0 (m_pixmap s)\<rparr>"
  "job_states A env pixels results out s ! 3 =
     s\<lparr>std_cout := std_cout s @ out,
       m_debugLabel := labelText A env (m_renderType s) (m_size s),
       m_pixmap := paint_loop A (m_renderType s) (m_size s) results pixels 0 (m_pixmap s),
       m_doneRendering := True\<rparr>"
  "job_states A env pixels results out s ! 4 =
     s\<lparr>std_cout := std_cout s @ out,
       m_debugLabel := labelText A env (m_renderType s) (m_size s),
       m_pixmap := paint_loop A (m_renderType s) (m_size s) results pixels 0 (m_pixmap s),
       m_doneRendering := True,
       emitted := emitted s @ [DoneRendering, Update]\<rparr>"
  "length (job_states A env pixels results out s) = 5"
  "last (job_states A env pixels results out s) = job_states A env pixels results out s ! 4"
  by (simp_all add: job_states_def Let_def)

lemma renderJob_eq:
  assumes "generateGrid A (m_size s) (m_view s) = (pixels, points)"
    and "evaluate A D (dev_outcome env) (m_renderType s) points = Inr (results, out)"
  shows "renderJob A D env s = Inr (job_states A env pixels results out s ! 4)"
  by (simp add: renderJob_def renderJob_trace_eq [OF assms] job_states_nth(7))

lemma rerender_fields:
  "m_renderType (rerender s) = m_renderType s" "m_size (rerender s) = m_size s"
  "m_view (rerender s) = m_view s" "m_pixmap (rerender s) = m_pixmap s"
  "std_cout (rerender s) = std_cout s" "m_doneRendering (rerender s) = False"
  "m_debugLabel (rerender s) = []" "emitted (rerender s) = emitted s @ [Rendering, Update]"
  by (simp_all add: rerender_def rerender_enter_def)

lemma show_nat_nonempty: "show_nat n \<noteq> []"
  by (subst show_nat.simps) simp

lemma show_int_nonempty: "show_int i \<noteq> []"
  by (simp add: show_int_def show_nat_nonempty)


text \<open>
  Claim C3. When the render type is \<^verbatim>\<open>Gpu\<close> and the OpenCL program fails to build, the
  \<^verbatim>\<open>catch\<close> block handles the exception inside the job: the results stay the zeros the
  vector was created with, one per point of the grid; the build log, the message, the
  error code and the error string are written to \<^verbatim>\<open>std::cout\<close>, so the output is not
  empty; the job runs to its end instead of ending in an exception, the flag
  \<^verbatim>\<open>m_doneRendering\<close> is true afterwards, and every pixel of the viewport is black.
\<close>

theorem build_failure_is_caught:
  assumes "m_renderType s = Gpu" and "dev_outcome env = Build_failed f"
  shows
    "evaluate A D (dev_outcome env) (m_renderType s)
        (snd (generateGrid A (m_size s) (m_view s))) =
       Inr (replicate (length (snd (generateGrid A (m_size s) (m_view s)))) 0,
            [build_log f, what f, show_int (error_code f), error_string f]) \<and>
     show_int (error_code f) \<noteq> [] \<and>
     \<not> m_doneRendering (rerender s) \<and>
     (case render A D env s of
        Inl e \<Rightarrow> False
      | Inr s' \<Rightarrow>
          std_cout s' =
            std_cout s @ [build_log f, what f, show_int (error_code f), error_string f] \<and>
          m_doneRendering s' \<and> \<not> rendering s' \<and>
          (\<forall>x y. 0 \<le> x \<and> x < m_size s \<and> 0 \<le> y \<and> y < m_size s \<longrightarrow>
             m_pixmap s' (x, y) = Some (0, 0, 0)))"
proof -
  obtain pixels points where grid: "generateGrid A (m_size s) (m_view s) = (pixels, points)"
    by (cases "generateGrid A (m_size s) (m_view s)")
  let ?out = "[build_log f, what f, show_int (error_code f), error_string f]"
  let ?results = "replicate (length points) (0::int)"
  let ?r = "rerender s"
  have ev: "evaluate A D (dev_outcome env) (m_renderType s) points = Inr (?results, ?out)"
    unfolding assms by (rule evaluate_Gpu_build_failed)
  have grid': "generateGrid A (m_size ?r) (m_view ?r) = (pixels, points)"
    using grid by (simp only: rerender_fields)
  have ev': "evaluate A D (dev_outcome env) (m_renderType ?r) points = Inr (?results, ?out)"
    using ev by (simp only: rerender_fields)
  have job: "render A D env s = Inr (job_states A env pixels ?results ?out ?r ! 4)"
    unfolding render_def by (rule renderJob_eq [OF grid' ev'])
  have black: "paint_loop A (m_renderType ?r) (m_size ?r) ?results pixels 0 (m_pixmap ?r) (x, y)
      = Some (0, 0, 0)"
    if "0 \<le> x \<and> x < m_size s \<and> 0 \<le> y \<and> y < m_size s" for x y
    using that by (intro paint_all_black [OF grid']) (simp_all add: rerender_fields)
  have 1: "evaluate A D (dev_outcome env) (m_renderType s)
        (snd (generateGrid A (m_size s) (m_view s))) =
       Inr (replicate (length (snd (generateGrid A (m_size s) (m_view s)))) 0, ?out)"
    using ev by (simp add: grid)
  have 2: "case render A D env s of
        Inl e \<Rightarrow> False
      | Inr s' \<Rightarrow>
          std_cout s' = std_cout s @ ?out \<and>
          m_doneRendering s' \<and> \<not> rendering s' \<and>
          (\<forall>x y. 0 \<le> x \<and> x < m_size s \<and> 0 \<le> y \<and> y < m_size s \<longrightarrow>
             m_pixmap s' (x, y) = Some (0, 0, 0))"
    unfolding job using black
    by (simp add: job_states_nth rendering_def rerender_fields)
  from 1 2 show ?thesis
    by (simp add: show_int_nonempty rerender_fields)
qed

theorem build_failure_is_caught_witness:
  "(case render exact exact (env_example (Build_failed build_failure_example))
          (widget_example Gpu 2) of
      Inl e \<Rightarrow> False
    | Inr s' \<Rightarrow>
        std_cout s' =
          [''error: use of type double requires cl_khr_fp64'', ''Build Program Failure'',
           show_int (- 11), ''Build Program Failure''] \<and>
        m_doneRendering s' \<and>
        m_pixmap s' (0, 0) = Some (0, 0, 0) \<and> m_pixmap s' (0, 1) = Some (0, 0, 0) \<and>
        m_pixmap s' (1, 0) = Some (0, 0, 0) \<and> m_pixmap s' (1, 1) = Some (0, 0, 0))"
proof -
  have h: "m_renderType (widget_example Gpu 2) = Gpu"
    "dev_outcome (env_example (Build_failed build_failure_example))
       = Build_failed build_failure_example"
    by (simp_all add: widget_example_def env_example_def)
  from build_failure_is_caught [OF h, of exact exact]
  show ?thesis
    by (auto simp: widget_example_def build_failure_example_def split: sum.splits)
qed

text \<open>
  Claim C7. \<^verbatim>\<open>rerender()\<close> clears the label and sets \<^verbatim>\<open>m_doneRendering\<close> to false before the
  job is started, so the job starts on a widget that is rendering. In the states the job
  goes through, the flag is true only where an earlier state, with the flag still false,
  already holds the final label (with the elapsed time) and the final pixmap. The job ends
  with the flag true, and \<^verbatim>\<open>rendering()\<close> is the negation of the flag.
\<close>

theorem rerender_discipline:
  assumes "renderJob_trace A D env (rerender s) = Inr states"
  shows
    "\<not> m_doneRendering (rerender_enter s) \<and> m_debugLabel (rerender_enter s) = [] \<and>
     \<not> m_doneRendering (rerender s) \<and> m_debugLabel (rerender s) = [] \<and>
     rendering (rerender s) \<and>
     (\<forall>k<length states. m_doneRendering (states ! k) \<longrightarrow>
        (\<exists>j<k. \<not> m_doneRendering (states ! j) \<and>
           m_debugLabel (states ! j) = labelText A env (m_renderType s) (m_size s) \<and>
           m_debugLabel (states ! k) = m_debugLabel (states ! j) \<and>
           m_pixmap (states ! j) = m_pixmap (last states) \<and>
           m_pixmap (states ! k) = m_pixmap (states ! j))) \<and>
     m_doneRendering (last states) \<and> \<not> rendering (last states) \<and>
     render A D env s = Inr (last states) \<and>
     (\<forall>w. rendering w = (\<not> m_doneRendering w))"
proof -
  let ?r = "rerender s"
  obtain pixels points where grid: "generateGrid A (m_size ?r) (m_view ?r) = (pixels, points)"
    by (cases "generateGrid A (m_size ?r) (m_view ?r)")
  from assms obtain results out
    where ev: "evaluate A D (dev_outcome env) (m_renderType ?r) points = Inr (results, out)"
      and st: "states = job_states A env pixels results out ?r"
    by (auto simp: renderJob_trace_def grid split: sum.splits)
  note n = job_states_nth [of A env pixels results out ?r]
  have order: "\<exists>j<k. \<not> m_doneRendering (states ! j) \<and>
           m_debugLabel (states ! j) = labelText A env (m_renderType s) (m_size s) \<and>
           m_debugLabel (states ! k) = m_debugLabel (states ! j) \<and>
           m_pixmap (states ! j) = m_pixmap (last states) \<and>
           m_pixmap (states ! k) = m_pixmap (states ! j)"
    if k: "k < length states" and flag: "m_doneRendering (states ! k)" for k
  proof -
    from k have "k = 0 \<or> k = 1 \<or> k = 2 \<or> k = 3 \<or> k = 4"
      unfolding st n(6) by arith
    with flag have k34: "k = 3 \<or> k = 4"
      unfolding st by (auto simp: n rerender_fields)
    have "2 < k \<and> \<not> m_doneRendering (states ! 2) \<and>
           m_debugLabel (states ! 2) = labelText A env (m_renderType s) (m_size s) \<and>
           m_debugLabel (states ! k) = m_debugLabel (states ! 2) \<and>
           m_pixmap (states ! 2) = m_pixmap (last states) \<and>
           m_pixmap (states ! k) = m_pixmap (states ! 2)"
      using k34 unfolding st by (auto simp: n rerender_fields)
    then show ?thesis by blast
  qed
  have fin: "m_doneRendering (last states)" "\<not> rendering (last states)"
    unfolding st by (simp_all add: n rendering_def)
  have job: "render A D env s = Inr (last states)"
    unfolding render_def renderJob_def assms by simp
  have entry: "\<not> m_doneRendering (rerender_enter s)" "m_debugLabel (rerender_enter s) = []"
    by (simp_all add: rerender_enter_def)
  from order fin job entry show ?thesis
    by (simp add: rerender_fields rendering_def)
qed

theorem rerender_discipline_witness:
  "\<not> m_doneRendering (rerender (widget_example CpuMultiThread 1)) \<and>
   m_debugLabel (rerender (widget_example CpuMultiThread 1)) = [] \<and>
   m_doneRendering (last (job_states exact (env_example Device_ok) [(0, 0)] [1] []
      (rerender (widget_example CpuMultiThread 1)))) \<and>
   render exact exact (env_example Device_ok) (widget_example CpuMultiThread 1) =
     Inr (last (job_states exact (env_example Device_ok) [(0, 0)] [1] []
      (rerender (widget_example CpuMultiThread 1))))"
proof -
  let ?r = "rerender (widget_example CpuMultiThread 1)"
  have f: "m_size ?r = 1" "m_view ?r = EntireSet" "m_renderType ?r = CpuMultiThread"
    by (simp_all add: rerender_fields widget_example_def)
  have grid: "generateGrid exact (m_size ?r) (m_view ?r) = ([(0, 0)], [(- (5 / 2), - 2)])"
    unfolding f by (simp add: generateGrid_one view_point_exact)
  have ev: "evaluate exact exact (dev_outcome (env_example Device_ok)) (m_renderType ?r)
      [(- (5 / 2), - 2)] = Inr ([1], [])"
    unfolding f by (simp add: evaluate_CpuMultiThread calculateMandelbrot_corner)
  note h = renderJob_trace_eq [OF grid ev]
  from rerender_discipline [OF h] show ?thesis by simp
qed


lemma grid_divisors_one: "grid_divisors A 1 view = [d_of_int A 1, d_of_int A 1]"
  by (simp add: grid_divisors_def generateGrid_one)

lemma grid_divisors_nonpositive: "N \<le> 0 \<Longrightarrow> grid_divisors A N view = []"
  by (simp add: grid_divisors_def generateGrid_nonpositive)

text \<open>
  Claim C8, as the code has it. For a viewport of one pixel the grid is the single pixel
  \<open>(0, 0)\<close> with its point; its two divisions divide by the double 1, which is not 0, and
  every strategy returns one count for it: the host kernel's from the loop and the map,
  the device kernel's from the \<^verbatim>\<open>Gpu\<close> branch, and 0 from the \<^verbatim>\<open>Gpu\<close> branch when the
  program does not build (an OpenCL error of another kind leaves the job as an exception,
  as at any size). A viewport of size 0 is not refused anywhere: the loops do not run, no
  division is made, the grid is empty, every strategy returns the empty vector for it, and
  the job runs to its end with \<^verbatim>\<open>m_doneRendering\<close> true unless the \<^verbatim>\<open>Gpu\<close> branch throws such
  an OpenCL error.
\<close>

theorem singleton_and_empty_grid:
  "generateGrid A 1 EntireSet =
     ([(0, 0)],
      [(d_add A (d_lit A (- 5 / 2))
          (d_div A (d_mul A (d_lit A 4) (d_of_int A 0)) (d_of_int A 1)),
        d_add A (d_lit A (- 2))
          (d_div A (d_mul A (d_lit A 4) (d_of_int A 0)) (d_of_int A 1)))]) \<and>
   generateGrid A 1 LeftSpike =
     ([(0, 0)],
      [(d_add A (d_lit A (- 17 / 10))
          (d_div A (d_mul A (d_lit A (1 / 4)) (d_of_int A 0)) (d_of_int A 1)),
        d_add A (d_lit A (- 1 / 8))
          (d_div A (d_mul A (d_lit A (1 / 4)) (d_of_int A 0)) (d_of_int A 1)))]) \<and>
   grid_divisors A 1 view = [d_of_int A 1, d_of_int A 1] \<and>
   generateGrid exact 1 EntireSet = ([(0, 0)], [(- 5 / 2, - 2)]) \<and>
   generateGrid exact 1 LeftSpike = ([(0, 0)], [(- 17 / 10, - 1 / 8)]) \<and>
   grid_divisors exact 1 view = [1, 1] \<and> (0::real) \<notin> set (grid_divisors exact 1 view) \<and>
   evaluate A D dev CpuSingleThread [c] = Inr ([calculateMandelbrot A c], []) \<and>
   evaluate A D dev CpuMultiThread [c] = Inr ([calculateMandelbrot A c], []) \<and>
   evaluate A D Device_ok Gpu [c] = Inr ([calculateMandelbrotCompute D c], []) \<and>
   evaluate A D (Build_failed f) Gpu [c] =
     Inr ([0], [build_log f, what f, show_int (error_code f), error_string f]) \<and>
   evaluate A D (Opencl_error e) Gpu [c] = Inl e \<and>
   generateGrid A 0 view = ([], []) \<and>
   grid_divisors A 0 view = [] \<and>
   evaluate A D dev CpuSingleThread [] = Inr ([], []) \<and>
   evaluate A D dev CpuMultiThread [] = Inr ([], []) \<and>
   evaluate A D Device_ok Gpu [] = Inr ([], []) \<and>
   evaluate A D (Build_failed f) Gpu [] =
     Inr ([], [build_log f, what f, show_int (error_code f), error_string f]) \<and>
   (m_size s = 0 \<and>
    (m_renderType s = Gpu \<longrightarrow>
       dev_outcome env = Device_ok \<or> (\<exists>f'. dev_outcome env = Build_failed f')) \<longrightarrow>
      (case renderJob A D env s of
         Inl e' \<Rightarrow> False
       | Inr s' \<Rightarrow> m_doneRendering s' \<and> m_size s' = 0 \<and> m_pixmap s' = m_pixmap s))"
proof -
  have one: "generateGrid A 1 EntireSet =
     ([(0, 0)],
      [(d_add A (d_lit A (- 5 / 2))
          (d_div A (d_mul A (d_lit A 4) (d_of_int A 0)) (d_of_int A 1)),
        d_add A (d_lit A (- 2))
          (d_div A (d_mul A (d_lit A 4) (d_of_int A 0)) (d_of_int A 1)))])"
    "generateGrid A 1 LeftSpike =
     ([(0, 0)],
      [(d_add A (d_lit A (- 17 / 10))
          (d_div A (d_mul A (d_lit A (1 / 4)) (d_of_int A 0)) (d_of_int A 1)),
        d_add A (d_lit A (- 1 / 8))
          (d_div A (d_mul A (d_lit A (1 / 4)) (d_of_int A 0)) (d_of_int A 1)))])"
    by (simp_all add: generateGrid_one view_point_def)
  have dv: "grid_divisors A 1 view = [d_of_int A 1, d_of_int A 1]"
    "grid_divisors A 0 view = []"
    by (simp_all add: grid_divisors_one grid_divisors_nonpositive)
  have ex: "generateGrid exact 1 EntireSet = ([(0, 0)], [(- 5 / 2, - 2)])"
    "generateGrid exact 1 LeftSpike = ([(0, 0)], [(- 17 / 10, - 1 / 8)])"
    "grid_divisors exact 1 view = [1, 1]" "(0::real) \<notin> set (grid_divisors exact 1 view)"
    by (simp_all add: generateGrid_one view_point_exact grid_divisors_one exact_sel)
  have ev: "evaluate A D dev CpuSingleThread [c] = Inr ([calculateMandelbrot A c], [])"
    "evaluate A D dev CpuMultiThread [c] = Inr ([calculateMandelbrot A c], [])"
    "evaluate A D Device_ok Gpu [c] = Inr ([calculateMandelbrotCompute D c], [])"
    "evaluate A D (Build_failed f) Gpu [c] =
       Inr ([0], [build_log f, what f, show_int (error_code f), error_string f])"
    "evaluate A D (Opencl_error e) Gpu [c] = Inl e"
    "evaluate A D dev CpuSingleThread [] = Inr ([], [])"
    "evaluate A D dev CpuMultiThread [] = Inr ([], [])"
    "evaluate A D Device_ok Gpu [] = Inr ([], [])"
    "evaluate A D (Build_failed f) Gpu [] =
       Inr ([], [build_log f, what f, show_int (error_code f), error_string f])"
    by (simp_all add: evaluate_CpuSingleThread evaluate_CpuMultiThread evaluate_Gpu_ok
        evaluate_Gpu_build_failed evaluate_Gpu_error)
  have zero: "generateGrid A 0 view = ([], [])"
    by (simp add: generateGrid_nonpositive)
  have job: "case renderJob A D env s of
         Inl e' \<Rightarrow> False
       | Inr s' \<Rightarrow> m_doneRendering s' \<and> m_size s' = 0 \<and> m_pixmap s' = m_pixmap s"
    if h: "m_size s = 0 \<and>
      (m_renderType s = Gpu \<longrightarrow>
         dev_outcome env = Device_ok \<or> (\<exists>f'. dev_outcome env = Build_failed f'))"
  proof -
    from h have sz: "m_size s = 0" by simp
    have grid: "generateGrid A (m_size s) (m_view s) = ([], [])"
      unfolding sz by (rule generateGrid_nonpositive) simp
    have "\<exists>out. evaluate A D (dev_outcome env) (m_renderType s) [] = Inr ([], out)"
    proof (cases "m_renderType s")
      case CpuSingleThread
      then show ?thesis by (simp add: evaluate_CpuSingleThread)
    next
      case CpuMultiThread
      then show ?thesis by (simp add: evaluate_CpuMultiThread)
    next
      case Gpu
      with h have "dev_outcome env = Device_ok \<or> (\<exists>f'. dev_outcome env = Build_failed f')"
        by simp
      with Gpu show ?thesis
        by (auto simp: evaluate_Gpu_ok evaluate_Gpu_build_failed)
    qed
    then obtain out where e: "evaluate A D (dev_outcome env) (m_renderType s) [] = Inr ([], out)"
      by blast
    show ?thesis
      unfolding renderJob_eq [OF grid e]
      by (simp add: job_states_nth sz paint_loop_stop)
  qed
  from one dv ex ev zero job show ?thesis by blast
qed

theorem singleton_and_empty_grid_witness:
  "(case renderJob exact exact (env_example (Build_failed build_failure_example))
          (widget_example Gpu 0) of
      Inl e' \<Rightarrow> False
    | Inr s' \<Rightarrow> m_doneRendering s' \<and> m_size s' = 0 \<and> m_pixmap s' = Map.empty) \<and>
   (case renderJob exact exact (env_example Device_ok) (widget_example CpuSingleThread 0) of
      Inl e' \<Rightarrow> False
    | Inr s' \<Rightarrow> m_doneRendering s' \<and> m_size s' = 0 \<and> m_pixmap s' = Map.empty) \<and>
   generateGrid exact 1 EntireSet = ([(0, 0)], [(- 5 / 2, - 2)]) \<and>
   grid_divisors exact 1 EntireSet = [1, 1] \<and>
   grid_divisors exact 0 EntireSet = []"
proof -
  let ?e1 = "env_example (Build_failed build_failure_example)"
  let ?w1 = "widget_example Gpu 0"
  let ?e2 = "env_example Device_ok"
  let ?w2 = "widget_example CpuSingleThread 0"
  have h1: "m_size ?w1 = 0 \<and>
      (m_renderType ?w1 = Gpu \<longrightarrow>
         dev_outcome ?e1 = Device_ok \<or> (\<exists>f'. dev_outcome ?e1 = Build_failed f'))"
    by (simp add: widget_example_def env_example_def)
  have h2: "m_size ?w2 = 0 \<and>
      (m_renderType ?w2 = Gpu \<longrightarrow>
         dev_outcome ?e2 = Device_ok \<or> (\<exists>f'. dev_outcome ?e2 = Build_failed f'))"
    by (simp add: widget_example_def env_example_def)
  have p: "m_pixmap ?w1 = Map.empty" "m_pixmap ?w2 = Map.empty"
    by (simp_all add: widget_example_def)
  note t1 = singleton_and_empty_grid [of exact EntireSet exact Device_ok "(0, 0)"
      build_failure_example 0 ?w1 ?e1]
  note t2 = singleton_and_empty_grid [of exact EntireSet exact Device_ok "(0, 0)"
      build_failure_example 0 ?w2 ?e2]
  from t1 h1 have 1: "case renderJob exact exact ?e1 ?w1 of
      Inl e' \<Rightarrow> False
    | Inr s' \<Rightarrow> m_doneRendering s' \<and> m_size s' = 0 \<and> m_pixmap s' = m_pixmap ?w1"
    by blast
  from t2 h2 have 2: "case renderJob exact exact ?e2 ?w2 of
      Inl e' \<Rightarrow> False
    | Inr s' \<Rightarrow> m_doneRendering s' \<and> m_size s' = 0 \<and> m_pixmap s' = m_pixmap ?w2"
    by blast
  from t1 have 3: "generateGrid exact 1 EntireSet = ([(0, 0)], [(- 5 / 2, - 2)])"
    "grid_divisors exact 1 EntireSet = [1, 1]" "grid_divisors exact 0 EntireSet = []"
    by blast+
  from 1 2 3 show ?thesis unfolding p by blast
qed

text \<open>
  The claim as it was stated fails at size 0: on a screen whose available size is one
  pixel the constructor computes \<open>m_size = 0\<close> (0.9 truncated), and the render of that
  widget is not refused but runs to its end on the empty grid.
\<close>

theorem size_zero_not_rejected_counterexample:
  "m_size (MandelbrotWidget exact CpuSingleThread 1 1) = 0 \<and>
   generateGrid exact 0 EntireSet = ([], []) \<and>
   evaluate exact exact Device_ok CpuSingleThread [] = Inr ([], []) \<and>
   (case renderJob exact exact (env_example Device_ok)
           (MandelbrotWidget exact CpuSingleThread 1 1) of
      Inl e \<Rightarrow> False
    | Inr s' \<Rightarrow> m_doneRendering s' \<and> m_size s' = 0 \<and> m_pixmap s' = Map.empty)"
proof -
  let ?w = "MandelbrotWidget exact CpuSingleThread 1 1"
  have sz: "m_size ?w = 0"
    by (simp add: MandelbrotWidget_def rerender_fields exact_sel of_rat_divide)
  have f: "m_renderType ?w = CpuSingleThread" "m_view ?w = EntireSet" "m_pixmap ?w = Map.empty"
    by (simp_all add: MandelbrotWidget_def rerender_fields)
  have grid: "generateGrid exact (m_size ?w) (m_view ?w) = ([], [])"
    unfolding sz by (rule generateGrid_nonpositive) simp
  have e: "evaluate exact exact (dev_outcome (env_example Device_ok)) (m_renderType ?w) []
      = Inr ([], [])"
    unfolding f by (simp add: evaluate_CpuSingleThread)
  have "case renderJob exact exact (env_example Device_ok) ?w of
      Inl e \<Rightarrow> False
    | Inr s' \<Rightarrow> m_doneRendering s' \<and> m_size s' = 0 \<and> m_pixmap s' = Map.empty"
    unfolding renderJob_eq [OF grid e]
    by (simp add: job_states_nth sz f paint_loop_stop)
  with sz show ?thesis
    by (simp add: generateGrid_nonpositive evaluate_CpuSingleThread)
qed

section \<open>The view\<close>

lemma pixel_step_no_calls:
  "pixel_step A no_calls N row col (s, pixels, points) =
     (s, pixels @ [(row, col)], points @ [view_point A (m_view s) N row col])"
  by (simp add: pixel_step_def no_calls_def)

















end
